theory Spec2Isabelle
  imports Complex_Main
begin

section \<open>Python values and dictionaries\<close>

text \<open>
  The services pass rows and request payloads around as Python dictionaries whose values
  are dynamically typed. A value is \<open>None\<close>, an integer, a float (read as a real
  number: rounding is not modelled), a string, a list or a \<open>datetime\<close> (the instant
  in microseconds). A dictionary is a partial map from keys.
\<close>

datatype pyval = PNone | PInt int | PFloat real | PStr string | PList "pyval list" | PDatetime int

type_synonym pydict = "string \<rightharpoonup> pyval"

text \<open>\<open>d.get(k, default)\<close>: the stored value when the key is present, also when it is \<open>None\<close>.\<close>

definition dict_get :: "pydict \<Rightarrow> string \<Rightarrow> pyval \<Rightarrow> pyval" where
  "dict_get d k dflt = (case d k of None \<Rightarrow> dflt | Some v \<Rightarrow> v)"

section \<open>Time to failure\<close>

text \<open>\<open>_estimate_days_until_failure\<close> (app/services/ml_models.py).\<close>

definition estimate_days_until_failure :: "real \<Rightarrow> int" where
  "estimate_days_until_failure probability =
     (if probability > 0.9 then 1
      else if probability > 0.8 then 3
      else if probability > 0.7 then 7
      else if probability > 0.6 then 14
      else 30)"

text \<open>
  \<open>PredictiveMaintenanceService._estimate_failure_date\<close>
  (grinding-peru/app/services/predictive_maintenance.py): the number of days it adds to
  the current date before formatting.
\<close>

definition estimate_failure_date_days :: "real \<Rightarrow> int" where
  "estimate_failure_date_days failure_probability =
     (if failure_probability > 0.8 then 1
      else if failure_probability > 0.6 then 3
      else if failure_probability > 0.4 then 7
      else if failure_probability > 0.2 then 14
      else 30)"

section \<open>Criticality\<close>

text \<open>
  \<open>AdvancedPredictiveMaintenance._assess_criticality\<close>
  (grinding-peru/app/services/advanced_predictive_maintenance.py). The local variable
  \<open>criticality_score\<close> and the conditional expression for the equipment's weight are
  definitions of their own; \<open>operating_hours\<close> is read and never used.
\<close>

definition criticality_weight :: "pyval \<Rightarrow> real" where
  "criticality_weight equipment_criticality =
     (if equipment_criticality = PStr ''high'' then 1 else 0.5)"

definition criticality_score :: "real \<Rightarrow> real \<Rightarrow> pydict \<Rightarrow> real" where
  "criticality_score failure_probability anomaly_score equipment_data =
     (let equipment_criticality = dict_get equipment_data ''criticality'' (PStr ''medium'')
      in failure_probability * 0.4 + anomaly_score * 0.3 +
         criticality_weight equipment_criticality * 0.3)"

definition assess_criticality :: "real \<Rightarrow> real \<Rightarrow> pydict \<Rightarrow> string" where
  "assess_criticality failure_probability anomaly_score equipment_data =
     (let score = criticality_score failure_probability anomaly_score equipment_data
      in if score \<ge> 0.8 then ''critical''
         else if score \<ge> 0.6 then ''high''
         else if score \<ge> 0.4 then ''medium''
         else ''low'')"

text \<open>
  The evaluator as the specification words it: a weight per tier
  (critical 1.0, high 0.75, medium 0.5, low 0.25) and the same thresholds.
\<close>

definition spec_criticality_weight :: "string \<Rightarrow> real" where
  "spec_criticality_weight t =
     (if t = ''critical'' then 1.0 else if t = ''high'' then 0.75
      else if t = ''medium'' then 0.5 else 0.25)"

definition spec_criticality_score :: "real \<Rightarrow> real \<Rightarrow> string \<Rightarrow> real" where
  "spec_criticality_score p a t = 0.4 * p + 0.3 * a + 0.3 * spec_criticality_weight t"

definition spec_assess_criticality :: "real \<Rightarrow> real \<Rightarrow> string \<Rightarrow> string" where
  "spec_assess_criticality p a t =
     (let score = spec_criticality_score p a t
      in if score \<ge> 0.8 then ''critical''
         else if score \<ge> 0.6 then ''high''
         else if score \<ge> 0.4 then ''medium''
         else ''low'')"

section \<open>Strings\<close>

text \<open>
  Strings are lists of characters. \<open>str.lower\<close> is modelled on the ASCII letters and
  \<open>str.split()\<close> on the ASCII whitespace characters; other characters are left as
  they are.
\<close>

definition lower_char :: "char \<Rightarrow> char" where
  "lower_char c =
     (let n = (of_char c :: nat) in if 65 \<le> n \<and> n \<le> 90 then char_of (n + 32) else c)"

definition lower :: "string \<Rightarrow> string" where
  "lower s = map lower_char s"

definition is_space :: "char \<Rightarrow> bool" where
  "is_space c = (let n = (of_char c :: nat) in (9 \<le> n \<and> n \<le> 13) \<or> (28 \<le> n \<and> n \<le> 32))"

text \<open>\<open>s.split()\<close>: the maximal runs of characters that are not whitespace.\<close>

fun split_from :: "string \<Rightarrow> string \<Rightarrow> string list" where
  "split_from cur [] = (if cur = [] then [] else [cur])"
| "split_from cur (c # cs) =
     (if is_space c then (if cur = [] then split_from [] cs else cur # split_from [] cs)
      else split_from (cur @ [c]) cs)"

definition split :: "string \<Rightarrow> string list" where
  "split s = split_from [] s"

fun starts_with :: "string \<Rightarrow> string \<Rightarrow> bool" where
  "starts_with s [] = True"
| "starts_with [] (c # w) = False"
| "starts_with (d # s) (c # w) = (d = c \<and> starts_with s w)"

text \<open>\<open>w in s\<close> for strings: \<open>w\<close> occurs in \<open>s\<close> as a substring.\<close>

fun str_contains :: "string \<Rightarrow> string \<Rightarrow> bool" where
  "str_contains [] w = (w = [])"
| "str_contains (c # s) w = (starts_with (c # s) w \<or> str_contains s w)"

section \<open>The data store\<close>

text \<open>
  The services reach their data through \<open>db.execute_query\<close>. The model keeps the rows
  of the \<open>incidents\<close> table that the queries read or write (the columns title,
  description, equipment, location, creator, attachments and tags are never touched by
  the modelled statements and are left out; \<open>resolved_at\<close> is the column that the
  performance query of the recommender reads), the rows that the query for available
  technicians returns, the rows of \<open>incident_performance\<close>, and a flag telling that the
  connection is down, in which case every call of \<open>execute_query\<close> raises.
  Timestamps are microseconds; \<open>window_start\<close> is the value of
  \<open>NOW() - INTERVAL '6 months'\<close> as the database computes it.
\<close>

record incident_row =
  row_id :: string
  row_priority :: string
  row_status :: string
  row_assigned_technician_id :: pyval
  row_created_at :: int
  row_updated_at :: int
  row_resolved_at :: "int option"
  row_estimated_duration :: "int option"
  row_actual_duration :: "int option"
  row_resolution_notes :: "string option"

record performance_row =
  perf_incident_id :: string
  perf_estimated_duration :: int
  perf_actual_duration :: int
  perf_efficiency :: real
  perf_completed_at :: int

record database =
  db_failing :: bool
  technician_rows :: "pydict list"
  window_start :: int
  incidents :: "incident_row list"
  incident_performance :: "performance_row list"

section \<open>Technician scoring\<close>

text \<open>
  \<open>TechnicianRecommendationSystem\<close>
  (grinding-peru/app/services/technician_recommendation.py). Each component function
  catches its own exceptions and returns its default; an attribute or type error of the
  Python (\<open>.lower()\<close> of a value that is no string, arithmetic on \<open>None\<close>) is the
  branch of the model that returns this default.
\<close>

definition specialty_equipment_map :: "(string \<times> string list) list" where
  "specialty_equipment_map =
     [(''mecanico'', [''motor'', ''bomba'', ''compresor'', ''generador'']),
      (''electrico'', [''motor'', ''generador'', ''transformador'', ''panel'']),
      (''electronico'', [''sensor'', ''controlador'', ''plc'', ''hmi'']),
      (''hidraulico'', [''bomba'', ''valvula'', ''cilindro'', ''actuador'']),
      (''neumatico'', [''compresor'', ''valvula'', ''cilindro'', ''actuador''])]"

definition failure_specialty_map :: "(string \<times> string list) list" where
  "failure_specialty_map =
     [(''mecanica'', [''mecanico'']),
      (''electrica'', [''electrico'', ''electronico'']),
      (''hidraulica'', [''hidraulico'', ''mecanico'']),
      (''neumatica'', [''neumatico'', ''mecanico'']),
      (''vibracion'', [''mecanico'', ''electrico'']),
      (''temperatura'', [''mecanico'', ''electrico''])]"

definition calculate_specialty_match :: "pyval \<Rightarrow> pyval \<Rightarrow> pyval \<Rightarrow> real" where
  "calculate_specialty_match technician_specialty equipment_type failure_type =
     (case (technician_specialty, equipment_type, failure_type) of
        (PStr ts, PStr et, PStr ft) \<Rightarrow>
          (if lower et \<in> set (case map_of specialty_equipment_map (lower ts) of
                                 None \<Rightarrow> [] | Some l \<Rightarrow> l)
           then 0.5 else 0) +
          (case map_of failure_specialty_map (lower ft) of
             None \<Rightarrow> 0
           | Some l \<Rightarrow> if lower ts \<in> set l then 0.5 else 0)
      | _ \<Rightarrow> 0)"

text \<open>A value that Python arithmetic accepts as a number.\<close>

definition py_number :: "pyval \<Rightarrow> real option" where
  "py_number v = (case v of PInt n \<Rightarrow> Some (real_of_int n) | PFloat r \<Rightarrow> Some r | _ \<Rightarrow> None)"

definition skill_multiplier :: "string \<Rightarrow> real" where
  "skill_multiplier skill_level =
     (case map_of [(''junior'', 0.6), (''intermediate'', 0.8), (''senior'', 1.0), (''expert'', 1.2)]
             (lower skill_level) of
        None \<Rightarrow> 0.8 | Some m \<Rightarrow> m)"

definition priority_multiplier :: "string \<Rightarrow> real" where
  "priority_multiplier priority =
     (case map_of [(''low'', 0.8), (''medium'', 1.0), (''high'', 1.2), (''critical'', 1.4)]
             (lower priority) of
        None \<Rightarrow> 1.0 | Some m \<Rightarrow> m)"

definition calculate_experience_score :: "pyval \<Rightarrow> pyval \<Rightarrow> pyval \<Rightarrow> real" where
  "calculate_experience_score experience_years skill_level priority =
     (case (py_number experience_years, skill_level, priority) of
        (Some years, PStr sl, PStr pr) \<Rightarrow>
          (let years_score = min (years / 10) 1.0
           in years_score * skill_multiplier sl * priority_multiplier pr)
      | _ \<Rightarrow> 0)"

definition calculate_workload_score :: "pyval \<Rightarrow> real" where
  "calculate_workload_score current_workload =
     (case py_number current_workload of
        Some w \<Rightarrow> (if w = 0 then 1.0 else if w \<le> 2 then 0.8 else if w \<le> 4 then 0.6 else 0.4)
      | None \<Rightarrow> 0.5)"

text \<open>
  Python truthiness: \<open>None\<close>, zero, the empty string and the empty list are false.
\<close>

definition truthy :: "pyval \<Rightarrow> bool" where
  "truthy v =
     (case v of PNone \<Rightarrow> False | PInt n \<Rightarrow> n \<noteq> 0 | PFloat r \<Rightarrow> r \<noteq> 0 | PStr s \<Rightarrow> s \<noteq> []
      | PList l \<Rightarrow> l \<noteq> [] | PDatetime t \<Rightarrow> True)"

definition calculate_location_score :: "pyval \<Rightarrow> pyval \<Rightarrow> real" where
  "calculate_location_score tech_location incident_location =
     (if \<not> truthy tech_location \<or> \<not> truthy incident_location then 0.5
      else (case (tech_location, incident_location) of
              (PStr tloc, PStr iloc) \<Rightarrow>
                (if lower tloc = lower iloc then 1.0
                 else if list_ex (\<lambda>word. str_contains (lower tloc) word) (split (lower iloc)) then 0.8
                 else 0.6)
            | _ \<Rightarrow> 0.5))"

datatype py_error = KeyError string | DatabaseError | OverflowError | ValueError | TypeError

text \<open>\<open>d[k]\<close>: a missing key raises \<open>KeyError\<close>.\<close>

definition dict_index :: "pydict \<Rightarrow> string \<Rightarrow> py_error + pyval" where
  "dict_index d k = (case d k of None \<Rightarrow> Inl (KeyError k) | Some v \<Rightarrow> Inr v)"

text \<open>
  The performance query of \<open>_calculate_performance_score\<close>, as SQL evaluates it over
  the incidents assigned to the technician within the window: \<open>AVG\<close> skips \<open>NULL\<close>
  and is \<open>NULL\<close> on no value, \<open>COUNT\<close> counts; a comparison with \<open>NULL\<close> selects
  no row. An aggregate query without grouping returns exactly one row, so the branch
  \<open>if not result\<close> is not taken while the connection works.
\<close>

definition sql_avg :: "real list \<Rightarrow> real option" where
  "sql_avg vs = (if vs = [] then None else Some (sum_list vs / real (length vs)))"

definition technician_history :: "database \<Rightarrow> pyval \<Rightarrow> incident_row list" where
  "technician_history db technician_id =
     filter (\<lambda>i. technician_id \<noteq> PNone \<and> row_assigned_technician_id i = technician_id \<and>
                  row_created_at i \<ge> window_start db)
       (incidents db)"

definition resolution_hours :: "incident_row \<Rightarrow> real option" where
  "resolution_hours i =
     (case row_resolved_at i of
        None \<Rightarrow> None
      | Some r \<Rightarrow> Some (real_of_int (r - row_created_at i) / 1000000 / 3600))"

definition performance_query :: "database \<Rightarrow> pyval \<Rightarrow> py_error + (real option \<times> real option \<times> nat)" where
  "performance_query db technician_id =
     (if db_failing db then Inl DatabaseError
      else
        (let rows = technician_history db technician_id
         in Inr (sql_avg (map (\<lambda>i. if row_status i = ''completed'' then 1 else 0) rows),
                 sql_avg (map the (filter (\<lambda>h. h \<noteq> None) (map resolution_hours rows))),
                 length (filter (\<lambda>i. row_priority i = ''critical'' \<and> row_status i = ''completed'') rows))))"

text \<open>\<open>x or d\<close> for an aggregate: \<open>NULL\<close> and zero give the default.\<close>

definition or_default :: "real option \<Rightarrow> real \<Rightarrow> real" where
  "or_default v d = (case v of None \<Rightarrow> d | Some r \<Rightarrow> if r = 0 then d else r)"

definition calculate_performance_score :: "database \<Rightarrow> pyval \<Rightarrow> real" where
  "calculate_performance_score db technician_id =
     (case performance_query db technician_id of
        Inl e \<Rightarrow> 0.5
      | Inr (cr, avg_resolution_time, crit) \<Rightarrow>
          (let completion_rate = or_default cr 0;
               avg_time = or_default avg_resolution_time 24;
               critical_resolved = or_default (Some (real crit)) 0;
               completion_score = completion_rate;
               time_score = max 0 (1 - (avg_time / 48));
               critical_score = min (critical_resolved / 5) 1.0
           in completion_score * 0.5 + time_score * 0.3 + critical_score * 0.2))"

text \<open>
  The body of the \<open>try\<close> block of \<open>_calculate_technician_score\<close>, up to the final
  \<open>min\<close>: the value of the variable \<open>score\<close>, or the exception raised by a missing
  column of the technician's row.
\<close>

definition weighted_score :: "database \<Rightarrow> pydict \<Rightarrow> pydict \<Rightarrow> py_error + real" where
  "weighted_score db technician incident_data =
     (case dict_index technician ''specialty'' of Inl e \<Rightarrow> Inl e | Inr specialty \<Rightarrow>
     (case dict_index technician ''experience_years'' of Inl e \<Rightarrow> Inl e | Inr experience_years \<Rightarrow>
     (case dict_index technician ''skill_level'' of Inl e \<Rightarrow> Inl e | Inr skill_level \<Rightarrow>
     (case dict_index technician ''current_workload'' of Inl e \<Rightarrow> Inl e | Inr current_workload \<Rightarrow>
     (case dict_index technician ''location'' of Inl e \<Rightarrow> Inl e | Inr location \<Rightarrow>
     (case dict_index technician ''id'' of Inl e \<Rightarrow> Inl e | Inr technician_id \<Rightarrow>
        (let specialty_score = calculate_specialty_match specialty
               (dict_get incident_data ''equipment_type'' (PStr []))
               (dict_get incident_data ''failure_type'' (PStr []));
             experience_score = calculate_experience_score experience_years skill_level
               (dict_get incident_data ''priority'' (PStr ''medium''));
             workload_score = calculate_workload_score current_workload;
             location_score = calculate_location_score location
               (dict_get incident_data ''location'' (PStr []));
             performance_score = calculate_performance_score db technician_id
         in Inr (specialty_score * 0.4 + experience_score * 0.25 + workload_score * 0.2 +
                 location_score * 0.1 + performance_score * 0.05))))))))"

definition calculate_technician_score :: "database \<Rightarrow> pydict \<Rightarrow> pydict \<Rightarrow> real" where
  "calculate_technician_score db technician incident_data =
     (case weighted_score db technician incident_data of
        Inl e \<Rightarrow> 0.0
      | Inr score \<Rightarrow> min score 1.0)"

section \<open>Recommendation and automatic assignment\<close>






text \<open>\<open>IntelligentIncidentManager\<close> (grinding-peru/app/services/intelligent_incident_management.py).\<close>

datatype incident_status = PENDING | IN_PROGRESS | COMPLETED | CANCELLED | ESCALATED

datatype incident_priority = LOW | MEDIUM | HIGH | CRITICAL

fun status_value :: "incident_status \<Rightarrow> string" where
  "status_value PENDING = ''pending''"
| "status_value IN_PROGRESS = ''in_progress''"
| "status_value COMPLETED = ''completed''"
| "status_value CANCELLED = ''cancelled''"
| "status_value ESCALATED = ''escalated''"

fun priority_value :: "incident_priority \<Rightarrow> string" where
  "priority_value LOW = ''low''"
| "priority_value MEDIUM = ''medium''"
| "priority_value HIGH = ''high''"
| "priority_value CRITICAL = ''critical''"

text \<open>
  The dataclass \<open>Incident\<close>. The fields filled from the request dictionary hold
  whatever value the dictionary has.
\<close>

record incident =
  inc_id :: string
  inc_title :: pyval
  inc_description :: pyval
  inc_equipment_id :: pyval
  inc_location :: pyval
  inc_priority :: incident_priority
  inc_status :: incident_status
  inc_created_by :: pyval
  inc_assigned_technician :: pyval
  inc_created_at :: int
  inc_updated_at :: int
  inc_estimated_duration :: "int option"
  inc_actual_duration :: "int option"
  inc_resolution_notes :: "string option"
  inc_attachments :: pyval
  inc_tags :: "string list"



text \<open>The dictionary that \<open>_auto_assign_technician\<close> builds from the incident.\<close>

definition assignment_incident_data :: "incident \<Rightarrow> pydict" where
  "assignment_incident_data inc =
     [''equipment_type'' \<mapsto> inc_equipment_id inc,
      ''failure_type'' \<mapsto> inc_description inc,
      ''location'' \<mapsto> inc_location inc,
      ''priority'' \<mapsto> PStr (priority_value (inc_priority inc)),
      ''required_specialties'' \<mapsto> PList []]"



text \<open>
  \<open>_save_incident\<close>: the \<open>INSERT\<close> into \<open>incidents\<close>; the columns it does not name
  are \<open>NULL\<close>. It raises when the statement fails.
\<close>

definition incident_to_row :: "incident \<Rightarrow> incident_row" where
  "incident_to_row inc =
     \<lparr>row_id = inc_id inc,
      row_priority = priority_value (inc_priority inc),
      row_status = status_value (inc_status inc),
      row_assigned_technician_id = inc_assigned_technician inc,
      row_created_at = inc_created_at inc,
      row_updated_at = inc_updated_at inc,
      row_resolved_at = None,
      row_estimated_duration = inc_estimated_duration inc,
      row_actual_duration = None,
      row_resolution_notes = inc_resolution_notes inc\<rparr>"




section \<open>Status updates\<close>

text \<open>
  \<open>_generate_performance_analysis\<close>: reads the incident back and, when both durations
  are positive, inserts a row into \<open>incident_performance\<close>. Every exception (a failed
  statement, a comparison of \<open>None\<close> with 0) is caught and logged, the table unchanged.
\<close>

definition generate_performance_analysis :: "database \<Rightarrow> string \<Rightarrow> int \<Rightarrow> database" where
  "generate_performance_analysis db incident_id now =
     (if db_failing db then db
      else
        (case filter (\<lambda>r. row_id r = incident_id) (incidents db) of
           [] \<Rightarrow> db
         | incident_row # rest \<Rightarrow>
             (case (row_estimated_duration incident_row, row_actual_duration incident_row) of
                (Some estimated, Some actual) \<Rightarrow>
                  (if estimated > 0 \<and> actual > 0
                   then db\<lparr>incident_performance := incident_performance db @
                           [\<lparr>perf_incident_id = incident_id,
                             perf_estimated_duration = estimated,
                             perf_actual_duration = actual,
                             perf_efficiency = min 1.0 (real_of_int estimated / real_of_int actual),
                             perf_completed_at = now\<rparr>]\<rparr>
                   else db)
              | _ \<Rightarrow> db)))"

text \<open>
  \<open>update_incident_status\<close>: the result dictionary, with \<open>success: True\<close>, the
  incident's identifier, the new status and the time, or with \<open>success: False\<close> and the
  error.
\<close>

datatype update_result = UpdateOk string string int | UpdateFailed py_error

text \<open>The \<open>UPDATE\<close> statement: the four columns it sets, in every row with the identifier.\<close>

definition update_status_row ::
  "incident_status \<Rightarrow> int \<Rightarrow> string option \<Rightarrow> int option \<Rightarrow> incident_row \<Rightarrow> incident_row" where
  "update_status_row new_status now notes actual_duration r =
     r\<lparr>row_status := status_value new_status,
       row_updated_at := now,
       row_resolution_notes := notes,
       row_actual_duration := actual_duration\<rparr>"

definition update_incident_status ::
  "database \<Rightarrow> string \<Rightarrow> incident_status \<Rightarrow> string option \<Rightarrow> int option \<Rightarrow> int \<Rightarrow>
     update_result \<times> database" where
  "update_incident_status db incident_id new_status notes actual_duration now =
     (if db_failing db then (UpdateFailed DatabaseError, db)
      else
        (let db1 = db\<lparr>incidents :=
                       map (\<lambda>r. if row_id r = incident_id
                                 then update_status_row new_status now notes actual_duration r
                                 else r)
                         (incidents db)\<rparr>;
             db2 = (if new_status = COMPLETED
                    then generate_performance_analysis db1 incident_id now
                    else db1)
         in (UpdateOk incident_id (status_value new_status) now, db2)))"

section \<open>Service-level deadlines\<close>

text \<open>
  \<open>IncidentManagementService\<close> (grinding-peru/app/services/incident_management.py).
  A \<open>datetime\<close> is the number of microseconds since \<open>datetime.min\<close>; adding a
  \<open>timedelta\<close> beyond \<open>datetime.max\<close> raises \<open>OverflowError\<close>.
\<close>

datatype priority = P_CRITICAL | P_HIGH | P_MEDIUM | P_LOW

























section \<open>Telemetry analysis\<close>

text \<open>
  A column of a data frame has one entry per reading, \<open>None\<close> where the reading has no
  value for the channel (NaN). A data frame maps the names of its columns to them.
  Floats are real numbers; a NaN result (the standard deviation of a single value) is
  \<open>None\<close>.
\<close>

type_synonym dataframe = "string \<rightharpoonup> real option list"

fun dropna :: "real option list \<Rightarrow> real list" where
  "dropna [] = []"
| "dropna (None # vs) = dropna vs"
| "dropna (Some v # vs) = v # dropna vs"

definition mean :: "real list \<Rightarrow> real" where
  "mean vs = sum_list vs / real (length vs)"

text \<open>\<open>np.arange(n)\<close>.\<close>

definition arange :: "nat \<Rightarrow> real list" where
  "arange n = map real [0..<n]"

text \<open>
  \<open>np.polyfit(x, y, 1)\<close>: the least-squares line, as its slope and intercept
  (the library computes it in floating point; the model is the exact solution).
\<close>

definition polyfit1 :: "real list \<Rightarrow> real list \<Rightarrow> real \<times> real" where
  "polyfit1 xs ys =
     (let n = real (length xs);
          sx = sum_list xs;
          sy = sum_list ys;
          sxy = sum_list (map2 (*) xs ys);
          sxx = sum_list (map2 (*) xs xs);
          slope = (n * sxy - sx * sy) / (n * sxx - sx * sx);
          intercept = (sy - slope * sx) / n
      in (slope, intercept))"

text \<open>
  \<open>PredictiveMaintenanceService._calculate_trend\<close>
  (grinding-peru/app/services/predictive_maintenance.py), on the values left by \<open>dropna\<close>.
\<close>

definition calculate_trend :: "real list \<Rightarrow> string" where
  "calculate_trend values =
     (if length values < 2 then ''stable''
      else
        (let x = arange (length values);
             slope = fst (polyfit1 x values)
         in if slope > 0.1 then ''increasing''
            else if slope < - 0.1 then ''decreasing''
            else ''stable''))"

text \<open>\<open>Series.std()\<close>: the sample standard deviation, NaN for fewer than two values.\<close>

definition sample_variance :: "real list \<Rightarrow> real option" where
  "sample_variance vs =
     (if length vs < 2 then None
      else Some (sum_list (map (\<lambda>v. (v - mean vs)\<^sup>2) vs) / (real (length vs) - 1)))"

definition sample_std :: "real list \<Rightarrow> real option" where
  "sample_std vs = map_option sqrt (sample_variance vs)"

record sensor_metric =
  m_current :: "real option"
  m_average :: real
  m_min :: real
  m_max :: real
  m_std :: "real option"
  m_trend :: string

definition sensor_columns :: "string list" where
  "sensor_columns = [''temperature'', ''vibration'', ''pressure'', ''humidity'', ''voltage'', ''current'']"

text \<open>
  \<open>_calculate_sensor_metrics\<close>: the dictionary of one channel, and the loop over the
  sensor columns that fills the result.
\<close>

definition channel_metrics :: "real list \<Rightarrow> sensor_metric" where
  "channel_metrics values =
     \<lparr>m_current = (if length values > 0 then Some (last values) else None),
      m_average = mean values,
      m_min = fold min values (hd values),
      m_max = fold max values (hd values),
      m_std = sample_std values,
      m_trend = calculate_trend values\<rparr>"

definition calculate_sensor_metrics :: "dataframe \<Rightarrow> (string \<rightharpoonup> sensor_metric)" where
  "calculate_sensor_metrics df =
     fold (\<lambda>col metrics.
             case df col of
               None \<Rightarrow> metrics
             | Some column \<Rightarrow>
                 (let values = dropna column
                  in if values = [] then metrics
                     else metrics(col \<mapsto> channel_metrics values)))
       sensor_columns Map.empty"








text \<open>
  \<open>RAGAgent._analyze_trend\<close> (app/services/rag_agent.py). The results for a missing
  or short column carry no current and no average value.
\<close>

record trend_result =
  trend :: string
  slope :: real
  r_squared :: real
  current_value :: "real option"
  average_value :: "real option"

definition analyze_trend :: "dataframe \<Rightarrow> string \<Rightarrow> trend_result" where
  "analyze_trend df column =
     (case df column of
        None \<Rightarrow> \<lparr>trend = ''no_data'', slope = 0, r_squared = 0,
                  current_value = None, average_value = None\<rparr>
      | Some col \<Rightarrow>
          if list_all (\<lambda>v. v = None) col
          then \<lparr>trend = ''no_data'', slope = 0, r_squared = 0,
                 current_value = None, average_value = None\<rparr>
          else
            (let y = dropna col
             in if length y < 2
                then \<lparr>trend = ''insufficient_data'', slope = 0, r_squared = 0,
                       current_value = None, average_value = None\<rparr>
                else
                  (let x = arange (length y);
                       coeffs = polyfit1 x y;
                       sl = fst coeffs;
                       y_pred = map (\<lambda>xi. sl * xi + snd coeffs) x;
                       ss_res = sum_list (map2 (\<lambda>yi pi. (yi - pi)\<^sup>2) y y_pred);
                       ss_tot = sum_list (map (\<lambda>yi. (yi - mean y)\<^sup>2) y);
                       r2 = (if ss_tot \<noteq> 0 then 1 - (ss_res / ss_tot) else 0);
                       tr = (if \<bar>sl\<bar> < 0.01 then ''stable''
                             else if sl > 0 then ''increasing''
                             else ''decreasing'')
                   in \<lparr>trend = tr, slope = sl, r_squared = r2,
                        current_value = (if length y > 0 then Some (last y) else None),
                        average_value = Some (mean y)\<rparr>)))"

text \<open>
  \<open>RAGAgent._detect_anomalies\<close> for one column: skipped when the column is missing or
  all null, has fewer than 10 values, or has a standard deviation of zero. An anomaly
  is reported with the column, the value, its z-score and the severity (the timestamp of
  the reading is left out).
\<close>

record anomaly =
  an_column :: string
  an_value :: real
  an_z_score :: real
  an_severity :: string

definition detect_anomalies_column :: "dataframe \<Rightarrow> string \<Rightarrow> anomaly list" where
  "detect_anomalies_column df column =
     (case df column of
        None \<Rightarrow> []
      | Some col \<Rightarrow>
          if list_all (\<lambda>v. v = None) col then []
          else
            (let clean_data = dropna col
             in if length clean_data < 10 then []
                else
                  (case sample_std clean_data of
                     None \<Rightarrow> []
                   | Some std \<Rightarrow>
                       if std = 0 then []
                       else
                         map (\<lambda>v. \<lparr>an_column = column, an_value = v,
                                    an_z_score = \<bar>(v - mean clean_data) / std\<bar>,
                                    an_severity = (if \<bar>(v - mean clean_data) / std\<bar> > 3
                                                   then ''high'' else ''medium'')\<rparr>)
                           (filter (\<lambda>v. \<bar>(v - mean clean_data) / std\<bar> > 2.5) clean_data))))"

definition detect_anomalies :: "dataframe \<Rightarrow> anomaly list" where
  "detect_anomalies df = concat (map (detect_anomalies_column df) sensor_columns)"

section \<open>Auxiliary notions for the results\<close>

text \<open>The years of experience of a row are not negative (a value that is no number counts).\<close>

definition nonneg_years :: "pyval \<Rightarrow> bool" where
  "nonneg_years v = (case py_number v of None \<Rightarrow> True | Some y \<Rightarrow> 0 \<le> y)"

text \<open>No incident of the table is resolved before it was created.\<close>

definition resolved_after_created :: "database \<Rightarrow> bool" where
  "resolved_after_created db =
     list_all (\<lambda>i. case row_resolved_at i of None \<Rightarrow> True | Some r \<Rightarrow> row_created_at i \<le> r)
       (incidents db)"

text \<open>
  The numerator of the least-squares slope over the reading index, for a series given by
  its values at the indices below \<open>n\<close>; the denominator is the same expression for the
  indices themselves.
\<close>

definition slope_num :: "(nat \<Rightarrow> real) \<Rightarrow> nat \<Rightarrow> real" where
  "slope_num y n = real n * (\<Sum>i<n. real i * y i) - (\<Sum>i<n. real i) * (\<Sum>i<n. y i)"




section \<open>Example data\<close>

text \<open>
  A technician whose specialty matches nothing, with no open incident; a data store
  whose pool holds this technician alone; an incident of critical priority.
\<close>

definition example_technician :: pydict where
  "example_technician =
     [''id'' \<mapsto> PInt 7, ''name'' \<mapsto> PStr ''Ana'', ''specialty'' \<mapsto> PStr ''otro'',
      ''experience_years'' \<mapsto> PInt 10, ''skill_level'' \<mapsto> PStr ''expert'',
      ''current_workload'' \<mapsto> PInt 0, ''location'' \<mapsto> PStr ''Lima'']"

definition example_db :: database where
  "example_db =
     \<lparr>db_failing = False, technician_rows = [example_technician], window_start = 0,
      incidents = [], incident_performance = []\<rparr>"

definition example_incident :: incident where
  "example_incident =
     \<lparr>inc_id = ''inc-1'', inc_title = PStr ''Motor'', inc_description = PStr ''vibracion'',
      inc_equipment_id = PStr ''motor'', inc_location = PStr ''Lima'',
      inc_priority = CRITICAL, inc_status = PENDING, inc_created_by = PStr ''op'',
      inc_assigned_technician = PNone, inc_created_at = 0, inc_updated_at = 0,
      inc_estimated_duration = Some 120, inc_actual_duration = None,
      inc_resolution_notes = None, inc_attachments = PList [], inc_tags = []\<rparr>"

text \<open>A pending incident without technician, as \<open>_save_incident\<close> stores it.\<close>

definition example_pending_row :: incident_row where
  "example_pending_row = incident_to_row example_incident"

definition example_pending_db :: database where
  "example_pending_db = example_db\<lparr>incidents := [example_pending_row]\<rparr>"

text \<open>A strictly increasing series of 24 values, rising by 0.001 per reading.\<close>

definition example_ramp :: "real list" where
  "example_ramp = map (\<lambda>i. real i / 1000) [0..<24]"








section \<open>Lemmas: technician scoring\<close>

lemma specialty_match_range:
  "0 \<le> calculate_specialty_match a b c \<and> calculate_specialty_match a b c \<le> 1"
  by (simp add: calculate_specialty_match_def split: pyval.splits option.splits)

lemma workload_score_range:
  "0.4 \<le> calculate_workload_score w \<and> calculate_workload_score w \<le> 1"
  by (simp add: calculate_workload_score_def split: option.splits)

lemma location_score_range:
  "0.5 \<le> calculate_location_score a b \<and> calculate_location_score a b \<le> 1"
  by (simp add: calculate_location_score_def split: pyval.splits)

lemma skill_multiplier_range: "0.6 \<le> skill_multiplier s \<and> skill_multiplier s \<le> 1.2"
  by (simp add: skill_multiplier_def)

lemma priority_multiplier_range: "0.8 \<le> priority_multiplier s \<and> priority_multiplier s \<le> 1.4"
  by (simp add: priority_multiplier_def)

lemma experience_product_range:
  fixes y m p :: real
  assumes "0 \<le> y" "y \<le> 1" "0.6 \<le> m" "m \<le> 1.2" "0.8 \<le> p" "p \<le> 1.4"
  shows "0 \<le> y * m * p \<and> y * m * p \<le> 1.68"
proof -
  have m0: "0 \<le> m" and p0: "0 \<le> p" using assms by simp_all
  have ym0: "0 \<le> y * m" using assms(1) m0 by simp
  have ym1: "y * m \<le> 1 * (12 / 10)"
    by (rule mult_mono) (use assms m0 in simp_all)
  have "y * m * p \<le> (1 * (12 / 10)) * (14 / 10)"
    by (rule mult_mono) (use ym1 ym0 assms p0 in simp_all)
  moreover have "0 \<le> y * m * p" using ym0 p0 by simp
  ultimately show ?thesis by simp
qed

lemma experience_score_upper: "calculate_experience_score ey sl pr \<le> 1.68"
proof (cases "\<exists>y s p. py_number ey = Some y \<and> sl = PStr s \<and> pr = PStr p")
  case True
  then obtain y s p where h: "py_number ey = Some y" "sl = PStr s" "pr = PStr p" by blast
  let ?ys = "min (y / 10) 1"
  show ?thesis
  proof (cases "0 \<le> y")
    case True
    then have "0 \<le> ?ys" "?ys \<le> 1" by auto
    from experience_product_range[OF this(1) this(2)] skill_multiplier_range[of s] priority_multiplier_range[of p]
    show ?thesis using h by (simp add: calculate_experience_score_def)
  next
    case False
    then have neg: "?ys \<le> 0" by auto
    have "0 \<le> skill_multiplier s * priority_multiplier p"
      using skill_multiplier_range[of s] priority_multiplier_range[of p] by auto
    then have "?ys * (skill_multiplier s * priority_multiplier p) \<le> 0"
      using neg by (rule mult_nonpos_nonneg[rotated 1, THEN order_trans[rotated]]) auto
    then show ?thesis using h by (simp add: calculate_experience_score_def mult.assoc)
  qed
next
  case False
  then show ?thesis
    by (auto simp add: calculate_experience_score_def split: option.splits pyval.splits)
qed

lemma experience_score_lower:
  "nonneg_years ey \<Longrightarrow> 0 \<le> calculate_experience_score ey sl pr"
proof (cases "\<exists>y s p. py_number ey = Some y \<and> sl = PStr s \<and> pr = PStr p")
  case True
  assume nn: "nonneg_years ey"
  from True obtain y s p where h: "py_number ey = Some y" "sl = PStr s" "pr = PStr p" by blast
  then have "0 \<le> y" using nn by (simp add: nonneg_years_def)
  then have "0 \<le> min (y / 10) 1" "min (y / 10) 1 \<le> 1" by auto
  from experience_product_range[OF this] skill_multiplier_range[of s] priority_multiplier_range[of p]
  show ?thesis using h by (simp add: calculate_experience_score_def)
next
  case False
  then show ?thesis
    by (auto simp add: calculate_experience_score_def split: option.splits pyval.splits)
qed

lemma sql_avg_indicator:
  assumes "\<forall>v \<in> set vs. 0 \<le> v \<and> v \<le> 1"
  shows "or_default (sql_avg vs) 0 \<ge> 0 \<and> or_default (sql_avg vs) 0 \<le> 1"
proof (cases "vs = []")
  case True
  then show ?thesis by (simp add: sql_avg_def or_default_def)
next
  case False
  have lo: "0 \<le> sum_list vs" using assms by (simp add: sum_list_nonneg)
  have "sum_list vs \<le> sum_list (map (\<lambda>_. 1) vs)"
    using assms by (intro sum_list_mono[where f="\<lambda>v. v" and g="\<lambda>_. 1", simplified]) auto
  then have hi: "sum_list vs \<le> real (length vs)"
    by (simp add: sum_list_triv)
  have len: "0 < real (length vs)" using False by simp
  have "0 \<le> sum_list vs / real (length vs)" using lo len by simp
  moreover have "sum_list vs / real (length vs) \<le> 1" using hi len by simp
  ultimately show ?thesis using False by (simp add: sql_avg_def or_default_def)
qed

lemma completion_rate_range:
  "0 \<le> or_default (sql_avg (map (\<lambda>i. if row_status i = ''completed'' then 1 else 0) rows)) 0 \<and>
   or_default (sql_avg (map (\<lambda>i. if row_status i = ''completed'' then 1 else 0) rows)) 0 \<le> 1"
  by (rule sql_avg_indicator) auto

lemma performance_combination:
  fixes c t k :: real
  assumes "0 \<le> c" "0 \<le> t" "0 \<le> k"
  shows "0 \<le> c * 0.5 + t * 0.3 + k * 0.2"
  using assms by simp

lemma performance_combination_le:
  fixes c t k :: real
  assumes "c \<le> 1" "t \<le> 1" "k \<le> 1"
  shows "c * 0.5 + t * 0.3 + k * 0.2 \<le> 1"
  using assms by simp

lemma performance_score_nonneg: "0 \<le> calculate_performance_score db tid"
proof (cases "db_failing db")
  case True
  then show ?thesis by (simp add: calculate_performance_score_def performance_query_def)
next
  case False
  obtain cr av crit where q: "performance_query db tid = Inr (cr, av, crit)"
    and cr: "cr = sql_avg (map (\<lambda>i. if row_status i = ''completed'' then 1 else 0) (technician_history db tid))"
    using False by (simp add: performance_query_def Let_def)
  have c: "0 \<le> or_default cr 0" unfolding cr using completion_rate_range by blast
  have k: "0 \<le> min (or_default (Some (real crit)) 0 / 5) 1"
    by (simp add: or_default_def)
  have t: "0 \<le> max 0 (1 - or_default av 24 / 48)" by simp
  show ?thesis
    using performance_combination[OF c t k] q
    by (simp add: calculate_performance_score_def Let_def)
qed

lemma sql_avg_nonneg:
  assumes "\<forall>v \<in> set vs. 0 \<le> v"
  shows "0 \<le> or_default (sql_avg vs) 24"
proof (cases "vs = []")
  case True
  then show ?thesis by (simp add: sql_avg_def or_default_def)
next
  case False
  have "0 \<le> sum_list vs" using assms by (simp add: sum_list_nonneg)
  then have "0 \<le> sum_list vs / real (length vs)" by simp
  then show ?thesis using False by (simp add: sql_avg_def or_default_def)
qed

lemma resolution_hours_nonneg:
  assumes "resolved_after_created db"
  shows "\<forall>v \<in> set (map the (filter (\<lambda>h. h \<noteq> None) (map resolution_hours (technician_history db tid)))). 0 \<le> v"
proof
  fix v
  assume "v \<in> set (map the (filter (\<lambda>h. h \<noteq> None) (map resolution_hours (technician_history db tid))))"
  then obtain i where i: "i \<in> set (technician_history db tid)" "resolution_hours i = Some v"
    by auto
  from i(1) have "i \<in> set (incidents db)" by (simp add: technician_history_def)
  with assms have "case row_resolved_at i of None \<Rightarrow> True | Some r \<Rightarrow> row_created_at i \<le> r"
    by (simp add: resolved_after_created_def list_all_iff)
  with i(2) show "0 \<le> v"
    by (auto simp add: resolution_hours_def split: option.splits)
qed

lemma performance_score_le_1:
  assumes "resolved_after_created db"
  shows "calculate_performance_score db tid \<le> 1"
proof (cases "db_failing db")
  case True
  then show ?thesis by (simp add: calculate_performance_score_def performance_query_def)
next
  case False
  obtain cr av crit where q: "performance_query db tid = Inr (cr, av, crit)"
    and cr: "cr = sql_avg (map (\<lambda>i. if row_status i = ''completed'' then 1 else 0) (technician_history db tid))"
    and av: "av = sql_avg (map the (filter (\<lambda>h. h \<noteq> None) (map resolution_hours (technician_history db tid))))"
    using False by (simp add: performance_query_def Let_def)
  have c: "or_default cr 0 \<le> 1" unfolding cr using completion_rate_range by blast
  have k: "min (or_default (Some (real crit)) 0 / 5) 1 \<le> 1" by simp
  have "0 \<le> or_default av 24" unfolding av
    by (rule sql_avg_nonneg) (rule resolution_hours_nonneg[OF assms])
  then have t: "max 0 (1 - or_default av 24 / 48) \<le> 1" by simp
  show ?thesis
    using performance_combination_le[OF c t k] q
    by (simp add: calculate_performance_score_def Let_def)
qed

lemma weighted_score_cases:
  "(\<exists>k. weighted_score db t i = Inl (KeyError k)) \<or>
   (\<exists>sp ey sl cw loc tid.
      t ''specialty'' = Some sp \<and> t ''experience_years'' = Some ey \<and> t ''skill_level'' = Some sl \<and>
      t ''current_workload'' = Some cw \<and> t ''location'' = Some loc \<and> t ''id'' = Some tid \<and>
      weighted_score db t i =
        Inr (calculate_specialty_match sp (dict_get i ''equipment_type'' (PStr []))
               (dict_get i ''failure_type'' (PStr [])) * 0.4 +
             calculate_experience_score ey sl (dict_get i ''priority'' (PStr ''medium'')) * 0.25 +
             calculate_workload_score cw * 0.2 +
             calculate_location_score loc (dict_get i ''location'' (PStr [])) * 0.1 +
             calculate_performance_score db tid * 0.05))"
  by (simp add: weighted_score_def dict_index_def Let_def split: option.splits)

lemma calculate_technician_score_le_1: "calculate_technician_score db t i \<le> 1"
  by (simp add: calculate_technician_score_def split: sum.splits)

lemma weighted_sum_nonneg:
  fixes s e w l p :: real
  assumes "0 \<le> s" "0 \<le> e" "0 \<le> w" "0 \<le> l" "0 \<le> p"
  shows "0 \<le> s * 0.4 + e * 0.25 + w * 0.2 + l * 0.1 + p * 0.05"
  using assms by simp

lemma calculate_technician_score_nonneg:
  assumes "case t ''experience_years'' of None \<Rightarrow> True | Some v \<Rightarrow> nonneg_years v"
  shows "0 \<le> calculate_technician_score db t i"
proof -
  from weighted_score_cases[of db t i] show ?thesis
  proof (elim disjE exE conjE)
    fix k assume "weighted_score db t i = Inl (KeyError k)"
    then show ?thesis by (simp add: calculate_technician_score_def)
  next
    fix sp ey sl cw loc tid
    assume ey: "t ''experience_years'' = Some ey"
      and ws: "weighted_score db t i =
        Inr (calculate_specialty_match sp (dict_get i ''equipment_type'' (PStr []))
               (dict_get i ''failure_type'' (PStr [])) * 0.4 +
             calculate_experience_score ey sl (dict_get i ''priority'' (PStr ''medium'')) * 0.25 +
             calculate_workload_score cw * 0.2 +
             calculate_location_score loc (dict_get i ''location'' (PStr [])) * 0.1 +
             calculate_performance_score db tid * 0.05)"
    have nn: "nonneg_years ey" using assms ey by simp
    have s: "0 \<le> calculate_specialty_match sp (dict_get i ''equipment_type'' (PStr []))
               (dict_get i ''failure_type'' (PStr []))"
      using specialty_match_range by blast
    have e: "0 \<le> calculate_experience_score ey sl (dict_get i ''priority'' (PStr ''medium''))"
      using experience_score_lower[OF nn] .
    have w: "0 \<le> calculate_workload_score cw"
      using workload_score_range[of cw] by simp
    have l: "0 \<le> calculate_location_score loc (dict_get i ''location'' (PStr []))"
      using location_score_range[of loc "dict_get i ''location'' (PStr [])"] by simp
    have p: "0 \<le> calculate_performance_score db tid" by (rule performance_score_nonneg)
    show ?thesis
      using weighted_sum_nonneg[OF s e w l p] ws
      by (simp add: calculate_technician_score_def)
  qed
qed




section \<open>Lemmas: the fitted slope\<close>

lemma slope_num_Suc:
  "slope_num y (Suc n) = slope_num y n + (\<Sum>i<n. (real n - real i) * (y n - y i))"
proof -
  have "(\<Sum>i<n. (real n - real i) * (y n - y i)) =
        real n * real n * y n - real n * (\<Sum>i<n. y i) - (\<Sum>i<n. real i) * y n + (\<Sum>i<n. real i * y i)"
    by (simp add: algebra_simps sum.distrib sum_subtractf sum_distrib_left sum_distrib_right)
  then show ?thesis
    by (simp add: slope_num_def algebra_simps)
qed

lemma slope_num_pos:
  assumes "\<forall>i j. i < j \<and> j < n \<longrightarrow> y i < y j"
  shows "0 \<le> slope_num y n \<and> (2 \<le> n \<longrightarrow> 0 < slope_num y n)"
  using assms
proof (induction n)
  case 0
  then show ?case by (simp add: slope_num_def)
next
  case (Suc n)
  have ih: "0 \<le> slope_num y n" using Suc by simp
  have terms: "0 < (real n - real i) * (y n - y i)" if "i < n" for i
    using that Suc.prems by simp
  have nonneg: "0 \<le> (\<Sum>i<n. (real n - real i) * (y n - y i))"
    by (rule sum_nonneg) (use terms in \<open>simp add: less_imp_le\<close>)
  have pos: "0 < (\<Sum>i<n. (real n - real i) * (y n - y i))" if "1 \<le> n"
  proof (rule sum_pos)
    show "finite {..<n}" by simp
    show "{..<n} \<noteq> {}" using that by (auto simp add: lessThan_empty_iff)
    show "\<And>i. i \<in> {..<n} \<Longrightarrow> 0 < (real n - real i) * (y n - y i)" using terms by simp
  qed
  show ?case
    using ih nonneg pos by (auto simp add: slope_num_Suc)
qed

lemma sum_list_map2_arange:
  assumes "length ys = n"
  shows "sum_list (map2 f (arange n) ys) = (\<Sum>i<n. f (real i) (ys ! i))"
proof -
  have "sum_list (map2 f (arange n) ys) = (\<Sum>i = 0..<n. map2 f (arange n) ys ! i)"
    using assms by (simp add: sum_list_sum_nth arange_def)
  also have "\<dots> = (\<Sum>i = 0..<n. f (real i) (ys ! i))"
    using assms by (intro sum.cong) (simp_all add: arange_def)
  finally show ?thesis by (simp add: lessThan_atLeast0)
qed

lemma sum_list_arange: "sum_list (arange n) = (\<Sum>i<n. real i)"
proof -
  have "sum_list (arange n) = (\<Sum>i = 0..<n. arange n ! i)"
    by (simp add: sum_list_sum_nth arange_def)
  also have "\<dots> = (\<Sum>i = 0..<n. real i)"
    by (intro sum.cong) (simp_all add: arange_def)
  finally show ?thesis by (simp add: lessThan_atLeast0)
qed

lemma sum_list_nth: "sum_list ys = (\<Sum>i<length ys. ys ! i)"
  by (simp add: sum_list_sum_nth lessThan_atLeast0)

lemma polyfit1_slope:
  "fst (polyfit1 (arange (length ys)) ys) =
     slope_num (\<lambda>i. ys ! i) (length ys) / slope_num real (length ys)"
proof -
  have a: "length (arange (length ys)) = length ys" by (simp add: arange_def)
  have "sum_list (map2 (*) (arange (length ys)) (arange (length ys))) =
        (\<Sum>i<length ys. real i * (arange (length ys) ! i))"
    by (rule sum_list_map2_arange) (rule a)
  also have "\<dots> = (\<Sum>i<length ys. real i * real i)"
    by (intro sum.cong) (simp_all add: arange_def)
  finally have xx: "sum_list (map2 (*) (arange (length ys)) (arange (length ys))) =
        (\<Sum>i<length ys. real i * real i)" .
  show ?thesis
    by (simp add: polyfit1_def Let_def a xx sum_list_map2_arange sum_list_arange slope_num_def
        sum_list_nth[of ys])
qed

lemma slope_positive:
  assumes "sorted_wrt (<) ys" "2 \<le> length ys"
  shows "0 < fst (polyfit1 (arange (length ys)) ys)"
proof -
  have y: "\<forall>i j. i < j \<and> j < length ys \<longrightarrow> ys ! i < ys ! j"
    using assms(1) by (simp add: sorted_wrt_iff_nth_less)
  have "0 < slope_num (\<lambda>i. ys ! i) (length ys)"
    using slope_num_pos[of "length ys" "\<lambda>i. ys ! i"] y assms(2) by blast
  moreover have "0 < slope_num real (length ys)"
    using slope_num_pos[of "length ys" real] assms(2) by simp
  ultimately show ?thesis by (simp add: polyfit1_slope)
qed

lemmas string_eval = lower_def lower_char_def char_of_eq_iff split_def is_space_def

lemmas score_eval =
  calculate_technician_score_def weighted_score_def dict_index_def dict_get_def
  calculate_specialty_match_def specialty_equipment_map_def failure_specialty_map_def
  calculate_experience_score_def py_number_def skill_multiplier_def priority_multiplier_def
  calculate_workload_score_def calculate_location_score_def truthy_def
  calculate_performance_score_def performance_query_def technician_history_def
  sql_avg_def or_default_def resolution_hours_def

lemmas example_eval =
  example_technician_def example_db_def example_incident_def assignment_incident_data_def
  example_pending_row_def example_pending_db_def incident_to_row_def


section \<open>Results: time to failure\<close>

text \<open>
  C6 (as stated it fails on \<open>_estimate_failure_date\<close>): a failure probability of 0.85
  lies in the band \<open>0.8 < p \<le> 0.9\<close>, for which the claim gives 3 days, and
  \<open>_estimate_failure_date\<close> adds 1 day.
\<close>

theorem estimate_failure_date_days_counterexample:
  "(0.8::real) < 0.85 \<and> (0.85::real) \<le> 0.9 \<and> estimate_failure_date_days 0.85 = 1 \<and>
   estimate_failure_date_days 0.85 \<noteq> 3"
  by (simp add: estimate_failure_date_days_def)

text \<open>
  C6 (amended): \<open>_estimate_days_until_failure\<close> is the step function of the claim
  (more than 0.9 gives 1 day, more than 0.8 gives 3, more than 0.7 gives 7, more than 0.6
  gives 14, otherwise 30); \<open>_estimate_failure_date\<close> is a step function with the
  breakpoints 0.8, 0.6, 0.4 and 0.2 for the same numbers of days; both never grow when the
  probability grows.
\<close>

theorem time_to_failure_steps:
  "(p > 0.9 \<longrightarrow> estimate_days_until_failure p = 1) \<and>
   (0.8 < p \<and> p \<le> 0.9 \<longrightarrow> estimate_days_until_failure p = 3) \<and>
   (0.7 < p \<and> p \<le> 0.8 \<longrightarrow> estimate_days_until_failure p = 7) \<and>
   (0.6 < p \<and> p \<le> 0.7 \<longrightarrow> estimate_days_until_failure p = 14) \<and>
   (p \<le> 0.6 \<longrightarrow> estimate_days_until_failure p = 30) \<and>
   (p \<le> q \<longrightarrow> estimate_days_until_failure q \<le> estimate_days_until_failure p) \<and>
   (p > 0.8 \<longrightarrow> estimate_failure_date_days p = 1) \<and>
   (0.6 < p \<and> p \<le> 0.8 \<longrightarrow> estimate_failure_date_days p = 3) \<and>
   (0.4 < p \<and> p \<le> 0.6 \<longrightarrow> estimate_failure_date_days p = 7) \<and>
   (0.2 < p \<and> p \<le> 0.4 \<longrightarrow> estimate_failure_date_days p = 14) \<and>
   (p \<le> 0.2 \<longrightarrow> estimate_failure_date_days p = 30) \<and>
   (p \<le> q \<longrightarrow> estimate_failure_date_days q \<le> estimate_failure_date_days p)"
  by (simp add: estimate_days_until_failure_def estimate_failure_date_days_def)

theorem time_to_failure_steps_witness:
  "estimate_days_until_failure 0.85 = 3 \<and>
   estimate_days_until_failure 0.95 \<le> estimate_days_until_failure 0.85 \<and>
   estimate_failure_date_days 0.85 = 1 \<and>
   estimate_failure_date_days 0.95 \<le> estimate_failure_date_days 0.85"
  using time_to_failure_steps [of "0.85" "0.95"] by simp

section \<open>Results: criticality\<close>

text \<open>
  C1 (as stated it fails): for equipment of tier critical with failure probability 1 and
  anomaly score 0.5 the claim's formula gives 0.85 and tier critical, and the code returns
  high; for the claim's own example (tier high, 0.72, 0.55) the code's score is 0.753,
  not 0.678.
\<close>

theorem assess_criticality_counterexample:
  "spec_assess_criticality 1 0.5 ''critical'' = ''critical'' \<and>
   assess_criticality 1 0.5 [''criticality'' \<mapsto> PStr ''critical''] = ''high'' \<and>
   spec_criticality_score 0.72 0.55 ''high'' = 0.678 \<and>
   criticality_score 0.72 0.55 [''criticality'' \<mapsto> PStr ''high''] \<noteq> 0.678"
  by (simp add: spec_assess_criticality_def spec_criticality_score_def
      spec_criticality_weight_def assess_criticality_def criticality_score_def
      criticality_weight_def dict_get_def)

text \<open>
  C1 (amended): the score is 0.4 times the failure probability plus 0.3 times the anomaly
  score plus 0.3 times a weight that is 1.0 for equipment of tier high and 0.5 for the
  tiers medium and low and for equipment without a tier; the tier returned is critical
  exactly from 0.8, high exactly from 0.6 below 0.8, medium exactly from 0.4 below 0.6 and
  low below 0.4; tier high with 0.72 and 0.55 gives the score 0.753 and the tier high.
\<close>

theorem assess_criticality_formula:
  "criticality_score p a eq =
     0.4 * p + 0.3 * a + 0.3 * criticality_weight (dict_get eq ''criticality'' (PStr ''medium'')) \<and>
   criticality_weight (PStr ''high'') = 1 \<and>
   criticality_weight (PStr ''medium'') = 0.5 \<and>
   criticality_weight (PStr ''low'') = 0.5 \<and>
   (assess_criticality p a eq = ''critical'' \<longleftrightarrow> criticality_score p a eq \<ge> 0.8) \<and>
   (assess_criticality p a eq = ''high'' \<longleftrightarrow>
      0.6 \<le> criticality_score p a eq \<and> criticality_score p a eq < 0.8) \<and>
   (assess_criticality p a eq = ''medium'' \<longleftrightarrow>
      0.4 \<le> criticality_score p a eq \<and> criticality_score p a eq < 0.6) \<and>
   (assess_criticality p a eq = ''low'' \<longleftrightarrow> criticality_score p a eq < 0.4) \<and>
   criticality_score 0.72 0.55 [''criticality'' \<mapsto> PStr ''high''] = 0.753 \<and>
   assess_criticality 0.72 0.55 [''criticality'' \<mapsto> PStr ''high''] = ''high''"
  by (simp add: assess_criticality_def criticality_score_def criticality_weight_def
      dict_get_def Let_def)

theorem assess_criticality_formula_witness:
  "criticality_score 1 1 Map.empty = 0.85 \<and>
   assess_criticality 1 1 Map.empty = ''critical''"
  using assess_criticality_formula [of 1 1 Map.empty]
  by (simp add: criticality_weight_def dict_get_def)

section \<open>Results: automatic assignment\<close>



section \<open>Results: technician score\<close>

lemma technician_score_bounds:
  "calculate_technician_score db t i \<le> 1 \<and>
   ((case t ''experience_years'' of None \<Rightarrow> True | Some v \<Rightarrow> nonneg_years v) \<longrightarrow>
      0 \<le> calculate_technician_score db t i) \<and>
   ((\<exists>k. weighted_score db t i = Inl (KeyError k)) \<longrightarrow> calculate_technician_score db t i = 0)"
  using calculate_technician_score_le_1 [of db t i] calculate_technician_score_nonneg [of t db i]
  by (auto simp add: calculate_technician_score_def)

text \<open>
  C5 (as stated it fails): the experience component of a technician with 10 years, skill
  level expert, on an incident of critical priority is 1.68; it is not capped at 1.0.
\<close>

theorem experience_score_counterexample:
  "calculate_experience_score (PInt 10) (PStr ''expert'') (PStr ''critical'') = 1.68 \<and>
   \<not> calculate_experience_score (PInt 10) (PStr ''expert'') (PStr ''critical'') \<le> 1"
  by (simp add: score_eval string_eval)

text \<open>
  C5 (amended): for a technician row with all its columns the score is the smaller of 1.0
  and the weighted sum specialty*0.4 + experience*0.25 + workload*0.2 + location*0.1 +
  performance*0.05. The specialty, workload and location components lie in [0,1]; the
  performance component is at least 0, and at most 1 when no incident was resolved before
  its creation. The experience component is min(years/10, 1) times the skill multiplier
  (junior 0.6, intermediate 0.8, senior 1.0, expert 1.2) times the priority multiplier
  (low 0.8, medium 1.0, high 1.2, critical 1.4); it is not capped: it is at most 1.68, and
  at least 0 when the years are not negative.
\<close>

theorem technician_score_components:
  "(t ''specialty'' = Some sp \<and> t ''experience_years'' = Some ey \<and> t ''skill_level'' = Some sl \<and>
    t ''current_workload'' = Some cw \<and> t ''location'' = Some loc \<and> t ''id'' = Some tid \<longrightarrow>
      calculate_technician_score db t i =
        min (calculate_specialty_match sp (dict_get i ''equipment_type'' (PStr []))
               (dict_get i ''failure_type'' (PStr [])) * 0.4 +
             calculate_experience_score ey sl (dict_get i ''priority'' (PStr ''medium'')) * 0.25 +
             calculate_workload_score cw * 0.2 +
             calculate_location_score loc (dict_get i ''location'' (PStr [])) * 0.1 +
             calculate_performance_score db tid * 0.05) 1) \<and>
   0 \<le> calculate_specialty_match a1 a2 a3 \<and> calculate_specialty_match a1 a2 a3 \<le> 1 \<and>
   0 \<le> calculate_workload_score w \<and> calculate_workload_score w \<le> 1 \<and>
   0 \<le> calculate_location_score l1 l2 \<and> calculate_location_score l1 l2 \<le> 1 \<and>
   0 \<le> calculate_performance_score db pid \<and>
   (resolved_after_created db \<longrightarrow> calculate_performance_score db pid \<le> 1) \<and>
   calculate_experience_score (PInt years) (PStr skill) (PStr prio) =
     min (real_of_int years / 10) 1 * skill_multiplier skill * priority_multiplier prio \<and>
   skill_multiplier ''junior'' = 0.6 \<and> skill_multiplier ''intermediate'' = 0.8 \<and>
   skill_multiplier ''senior'' = 1.0 \<and> skill_multiplier ''expert'' = 1.2 \<and>
   priority_multiplier ''low'' = 0.8 \<and> priority_multiplier ''medium'' = 1.0 \<and>
   priority_multiplier ''high'' = 1.2 \<and> priority_multiplier ''critical'' = 1.4 \<and>
   (nonneg_years e1 \<longrightarrow> 0 \<le> calculate_experience_score e1 e2 e3) \<and>
   calculate_experience_score e1 e2 e3 \<le> 1.68"
proof -
  have total: "calculate_technician_score db t i =
        min (calculate_specialty_match sp (dict_get i ''equipment_type'' (PStr []))
               (dict_get i ''failure_type'' (PStr [])) * 0.4 +
             calculate_experience_score ey sl (dict_get i ''priority'' (PStr ''medium'')) * 0.25 +
             calculate_workload_score cw * 0.2 +
             calculate_location_score loc (dict_get i ''location'' (PStr [])) * 0.1 +
             calculate_performance_score db tid * 0.05) 1"
    if "t ''specialty'' = Some sp" "t ''experience_years'' = Some ey" "t ''skill_level'' = Some sl"
       "t ''current_workload'' = Some cw" "t ''location'' = Some loc" "t ''id'' = Some tid"
    using that by (simp add: calculate_technician_score_def weighted_score_def dict_index_def Let_def)
  have wl: "0 \<le> calculate_workload_score w" "calculate_workload_score w \<le> 1"
    using workload_score_range [of w] by simp_all
  have lc: "0 \<le> calculate_location_score l1 l2" "calculate_location_score l1 l2 \<le> 1"
    using location_score_range [of l1 l2] by simp_all
  have ex: "calculate_experience_score (PInt years) (PStr skill) (PStr prio) =
     min (real_of_int years / 10) 1 * skill_multiplier skill * priority_multiplier prio"
    by (simp add: calculate_experience_score_def py_number_def)
  have mult: "skill_multiplier ''junior'' = 0.6" "skill_multiplier ''intermediate'' = 0.8"
    "skill_multiplier ''senior'' = 1.0" "skill_multiplier ''expert'' = 1.2"
    "priority_multiplier ''low'' = 0.8" "priority_multiplier ''medium'' = 1.0"
    "priority_multiplier ''high'' = 1.2" "priority_multiplier ''critical'' = 1.4"
    by (simp_all add: skill_multiplier_def priority_multiplier_def string_eval)
  show ?thesis
    using total specialty_match_range [of a1 a2 a3] wl lc performance_score_nonneg [of db pid]
      performance_score_le_1 [of db pid] ex mult experience_score_lower [of e1 e2 e3]
      experience_score_upper [of e1 e2 e3]
    by blast
qed

theorem technician_score_components_witness:
  "calculate_technician_score example_db example_technician
      (assignment_incident_data example_incident) = 0.7275 \<and>
   resolved_after_created example_db \<and>
   calculate_performance_score example_db (PInt 7) \<le> 1 \<and>
   nonneg_years (PInt 10) \<and>
   0 \<le> calculate_experience_score (PInt 10) (PStr ''expert'') (PStr ''critical'')"
proof -
  have fields: "example_technician ''specialty'' = Some (PStr ''otro'')"
    "example_technician ''experience_years'' = Some (PInt 10)"
    "example_technician ''skill_level'' = Some (PStr ''expert'')"
    "example_technician ''current_workload'' = Some (PInt 0)"
    "example_technician ''location'' = Some (PStr ''Lima'')"
    "example_technician ''id'' = Some (PInt 7)"
    by (simp_all add: example_technician_def)
  have hyps: "resolved_after_created example_db" "nonneg_years (PInt 10)"
    by (simp_all add: resolved_after_created_def example_db_def nonneg_years_def py_number_def)
  have vals: "min (calculate_specialty_match (PStr ''otro'')
               (dict_get (assignment_incident_data example_incident) ''equipment_type'' (PStr []))
               (dict_get (assignment_incident_data example_incident) ''failure_type'' (PStr [])) * 0.4 +
             calculate_experience_score (PInt 10) (PStr ''expert'')
               (dict_get (assignment_incident_data example_incident) ''priority'' (PStr ''medium'')) * 0.25 +
             calculate_workload_score (PInt 0) * 0.2 +
             calculate_location_score (PStr ''Lima'')
               (dict_get (assignment_incident_data example_incident) ''location'' (PStr [])) * 0.1 +
             calculate_performance_score example_db (PInt 7) * 0.05) 1 = 0.7275"
    by (simp add: score_eval string_eval example_eval)
  note inst = technician_score_components [of example_technician "PStr ''otro''" "PInt 10"
        "PStr ''expert''" "PInt 0" "PStr ''Lima''" "PInt 7" example_db
        "assignment_incident_data example_incident" PNone PNone PNone PNone PNone PNone "PInt 7"
        0 "[]" "[]" "PInt 10" "PStr ''expert''" "PStr ''critical''"]
  have total: "calculate_technician_score example_db example_technician
      (assignment_incident_data example_incident) =
        min (calculate_specialty_match (PStr ''otro'')
               (dict_get (assignment_incident_data example_incident) ''equipment_type'' (PStr []))
               (dict_get (assignment_incident_data example_incident) ''failure_type'' (PStr [])) * 0.4 +
             calculate_experience_score (PInt 10) (PStr ''expert'')
               (dict_get (assignment_incident_data example_incident) ''priority'' (PStr ''medium'')) * 0.25 +
             calculate_workload_score (PInt 0) * 0.2 +
             calculate_location_score (PStr ''Lima'')
               (dict_get (assignment_incident_data example_incident) ''location'' (PStr [])) * 0.1 +
             calculate_performance_score example_db (PInt 7) * 0.05) 1"
    using inst fields by blast
  have perf: "calculate_performance_score example_db (PInt 7) \<le> 1"
    using inst hyps(1) by blast
  have exp: "0 \<le> calculate_experience_score (PInt 10) (PStr ''expert'') (PStr ''critical'')"
    using inst hyps(2) by blast
  have "calculate_technician_score example_db example_technician
      (assignment_incident_data example_incident) = 0.7275"
    using total vals by (rule trans)
  then show ?thesis using hyps perf exp by blast
qed

text \<open>
  C10 (the code departs from the claim): for a technician row whose years of experience
  are negative the score is negative, here -1.7925 for -50 years, although the result is
  meant to be normalised to the range from 0 to 1; only the upper end is clamped.
\<close>

theorem technician_score_negative_years:
  "calculate_technician_score example_db (example_technician(''experience_years'' \<mapsto> PInt (- 50)))
      (assignment_incident_data example_incident) = - 1.7925 \<and>
   calculate_technician_score example_db (example_technician(''experience_years'' \<mapsto> PInt (- 50)))
      (assignment_incident_data example_incident) < 0"
  by (simp add: score_eval string_eval example_eval)

section \<open>Results: status updates\<close>

lemma generate_performance_analysis_incidents:
  "incidents (generate_performance_analysis db incident_id now) = incidents db"
  by (simp add: generate_performance_analysis_def split: list.splits option.splits)

lemma update_incident_status_incidents:
  "incidents (snd (update_incident_status db incident_id new_status notes actual_duration now)) =
     (if db_failing db then incidents db
      else map (\<lambda>r. if row_id r = incident_id
                      then update_status_row new_status now notes actual_duration r
                      else r)
             (incidents db))"
  by (simp add: update_incident_status_def Let_def generate_performance_analysis_incidents)

text \<open>
  C2 (as stated it fails): a single status update moves a pending incident without
  technician to completed and reports success.
\<close>

theorem update_incident_status_counterexample:
  "row_status example_pending_row = ''pending'' \<and>
   row_assigned_technician_id example_pending_row = PNone \<and>
   incidents example_pending_db = [example_pending_row] \<and>
   fst (update_incident_status example_pending_db ''inc-1'' COMPLETED None None 5) =
     UpdateOk ''inc-1'' ''completed'' 5 \<and>
   map row_status
     (incidents (snd (update_incident_status example_pending_db ''inc-1'' COMPLETED None None 5))) =
     [''completed'']"
  by (simp add: update_incident_status_incidents update_status_row_def example_eval)
     (simp add: update_incident_status_def example_eval)

text \<open>
  C2 (amended): the status update checks no transition. While the data store accepts
  the statement, every request succeeds and gives every incident with the identifier
  the requested status, whatever its current status and technician; the other incidents
  are left as they are. The only failure is an error of the data store, which is returned
  as such and leaves the table unchanged.
\<close>

theorem update_incident_status_unconditional:
  "(\<not> db_failing db \<longrightarrow>
      fst (update_incident_status db incident_id new_status notes actual_duration now) =
        UpdateOk incident_id (status_value new_status) now \<and>
      length (incidents (snd (update_incident_status db incident_id new_status notes actual_duration now)))
        = length (incidents db) \<and>
      (\<forall>k < length (incidents db).
         let r = incidents db ! k;
             r' = incidents (snd (update_incident_status db incident_id new_status notes
                                    actual_duration now)) ! k
         in if row_id r = incident_id
            then row_status r' = status_value new_status \<and> row_id r' = incident_id \<and>
                 row_assigned_technician_id r' = row_assigned_technician_id r
            else r' = r)) \<and>
   (db_failing db \<longrightarrow>
      update_incident_status db incident_id new_status notes actual_duration now =
        (UpdateFailed DatabaseError, db))"
  by (simp add: update_incident_status_incidents update_status_row_def Let_def)
     (simp add: update_incident_status_def Let_def)

theorem update_incident_status_unconditional_witness:
  "\<not> db_failing example_pending_db \<and>
   (0::nat) < length (incidents example_pending_db) \<and>
   row_id (incidents example_pending_db ! 0) = ''inc-1'' \<and>
   row_status (incidents example_pending_db ! 0) = ''pending'' \<and>
   fst (update_incident_status example_pending_db ''inc-1'' COMPLETED None None 5) =
     UpdateOk ''inc-1'' ''completed'' 5 \<and>
   row_status (incidents (snd (update_incident_status example_pending_db ''inc-1'' COMPLETED
                                 None None 5)) ! 0) = ''completed''"
proof -
  have h: "\<not> db_failing example_pending_db" "(0::nat) < length (incidents example_pending_db)"
    "row_id (incidents example_pending_db ! 0) = ''inc-1''"
    "row_status (incidents example_pending_db ! 0) = ''pending''"
    by (simp_all add: example_eval)
  show ?thesis
    using update_incident_status_unconditional
      [of example_pending_db "''inc-1''" COMPLETED None None 5] h
    by (simp add: Let_def)
qed

section \<open>Results: zero variance\<close>







section \<open>Results: trend\<close>

lemma dropna_all_none: "list_all (\<lambda>v. v = None) col \<Longrightarrow> dropna col = []"
  by (induction col rule: dropna.induct) simp_all

lemma analyze_trend_fitted:
  assumes "df column = Some col" "2 \<le> length (dropna col)"
  shows "slope (analyze_trend df column) = fst (polyfit1 (arange (length (dropna col))) (dropna col))"
    and "trend (analyze_trend df column) =
           (if \<bar>fst (polyfit1 (arange (length (dropna col))) (dropna col))\<bar> < 0.01 then ''stable''
            else if fst (polyfit1 (arange (length (dropna col))) (dropna col)) > 0 then ''increasing''
            else ''decreasing'')"
proof -
  have "\<not> list_all (\<lambda>v. v = None) col"
    using assms(2) dropna_all_none [of col] by auto
  then show "slope (analyze_trend df column) = fst (polyfit1 (arange (length (dropna col))) (dropna col))"
    and "trend (analyze_trend df column) =
           (if \<bar>fst (polyfit1 (arange (length (dropna col))) (dropna col))\<bar> < 0.01 then ''stable''
            else if fst (polyfit1 (arange (length (dropna col))) (dropna col)) > 0 then ''increasing''
            else ''decreasing'')"
    using assms by (simp_all add: analyze_trend_def Let_def)
qed

lemma dropna_map_Some: "dropna (map Some vs) = vs"
  by (induction vs) simp_all

lemma ramp_slope:
  assumes "2 \<le> n"
  shows "fst (polyfit1 (arange n) (map (\<lambda>i. real i * c) [0..<n])) = c"
proof -
  let ?ys = "map (\<lambda>i. real i * c) [0..<n]"
  have len: "length ?ys = n" by simp
  have num: "slope_num (\<lambda>i. ?ys ! i) n = c * slope_num real n"
  proof -
    have "(\<Sum>i<n. real i * (?ys ! i)) = (\<Sum>i<n. c * (real i * real i))"
      by (intro sum.cong) (simp_all add: mult.commute)
    moreover have "(\<Sum>i<n. ?ys ! i) = (\<Sum>i<n. c * real i)"
      by (intro sum.cong) (simp_all add: mult.commute)
    ultimately show ?thesis
      by (simp add: slope_num_def sum_distrib_left algebra_simps)
  qed
  have den: "0 < slope_num real n"
    using slope_num_pos [of n real] assms by simp
  have "fst (polyfit1 (arange (length ?ys)) ?ys) =
          slope_num (\<lambda>i. ?ys ! i) (length ?ys) / slope_num real (length ?ys)"
    by (rule polyfit1_slope)
  then show ?thesis using num den by (simp add: len)
qed

lemma ramp_sorted:
  assumes "0 < c"
  shows "sorted_wrt (<) (map (\<lambda>i. real i * c) [0..<n])"
proof -
  have "sorted_wrt (\<lambda>i j. real i * c < real j * c) [0..<n]"
    by (rule sorted_wrt_mono_rel [OF _ sorted_wrt_upt [of 0 n]]) (use assms in simp)
  then show ?thesis by (simp add: sorted_wrt_map)
qed

lemma example_ramp_alt: "example_ramp = map (\<lambda>i. real i * (1 / 1000)) [0..<24]"
  by (simp add: example_ramp_def)

lemma example_ramp_slope: "fst (polyfit1 (arange 24) example_ramp) = 1 / 1000"
  using ramp_slope [of 24 "1 / 1000"] by (simp add: example_ramp_alt)

text \<open>
  C7 (as stated it fails): the series of 24 values 0, 0.001, ..., 0.023 is strictly
  increasing and both classifiers call it stable; and the classifier of the health
  summary calls the series 0, 0.05 stable although its slope, 0.05, is not below 0.01.
\<close>

theorem trend_counterexample:
  "length example_ramp = 24 \<and> sorted_wrt (<) example_ramp \<and>
   trend (analyze_trend [''temperature'' \<mapsto> map Some example_ramp] ''temperature'') = ''stable'' \<and>
   calculate_trend example_ramp = ''stable'' \<and>
   fst (polyfit1 (arange 2) [0, 0.05]) = 0.05 \<and>
   calculate_trend [0, 0.05] = ''stable''"
proof -
  have a: "length example_ramp = 24" by (simp add: example_ramp_def)
  have b: "sorted_wrt (<) example_ramp"
    unfolding example_ramp_alt by (rule ramp_sorted) simp
  have c: "trend (analyze_trend [''temperature'' \<mapsto> map Some example_ramp] ''temperature'') = ''stable''"
    using analyze_trend_fitted(2) [of "[''temperature'' \<mapsto> map Some example_ramp]" "''temperature''"
        "map Some example_ramp"] a
    by (simp add: dropna_map_Some example_ramp_slope)
  have d: "calculate_trend example_ramp = ''stable''"
    using a by (simp add: calculate_trend_def Let_def example_ramp_slope)
  have e: "fst (polyfit1 (arange 2) [0, 0.05]) = 0.05"
    by code_simp
  have f: "calculate_trend [0, 0.05] = ''stable''"
    by code_simp
  show ?thesis using a b c d e f by blast
qed

text \<open>
  C7 (amended): for a series with at least 2 valid points, with the slope of the line
  fitted over the reading index: the trend analysis of the pattern analyser returns
  stable exactly when the absolute slope is below 0.01, increasing exactly from 0.01 and
  decreasing exactly down from -0.01; the classifier of the health summary returns
  increasing exactly above 0.1, decreasing exactly below -0.1 and stable otherwise.
  A strictly increasing series has a positive slope, so neither calls it decreasing, and
  each calls it increasing exactly when the slope reaches its threshold.
\<close>

theorem trend_classification:
  "(df column = Some col \<and> 2 \<le> length (dropna col) \<longrightarrow>
      slope (analyze_trend df column) = fst (polyfit1 (arange (length (dropna col))) (dropna col)) \<and>
      (trend (analyze_trend df column) = ''stable'' \<longleftrightarrow> \<bar>slope (analyze_trend df column)\<bar> < 0.01) \<and>
      (trend (analyze_trend df column) = ''increasing'' \<longleftrightarrow> slope (analyze_trend df column) \<ge> 0.01) \<and>
      (trend (analyze_trend df column) = ''decreasing'' \<longleftrightarrow> slope (analyze_trend df column) \<le> - 0.01)) \<and>
   (2 \<le> length values \<longrightarrow>
      (calculate_trend values = ''increasing'' \<longleftrightarrow>
         fst (polyfit1 (arange (length values)) values) > 0.1) \<and>
      (calculate_trend values = ''decreasing'' \<longleftrightarrow>
         fst (polyfit1 (arange (length values)) values) < - 0.1) \<and>
      (calculate_trend values = ''stable'' \<longleftrightarrow>
         \<bar>fst (polyfit1 (arange (length values)) values)\<bar> \<le> 0.1)) \<and>
   (2 \<le> length values \<and> sorted_wrt (<) values \<longrightarrow>
      0 < fst (polyfit1 (arange (length values)) values) \<and>
      calculate_trend values \<noteq> ''decreasing'' \<and>
      (df column = Some (map Some values) \<longrightarrow>
         trend (analyze_trend df column) \<noteq> ''decreasing''))"
proof (intro conjI impI)
  assume h: "df column = Some col \<and> 2 \<le> length (dropna col)"
  note f = analyze_trend_fitted [of df column col]
  show "slope (analyze_trend df column) = fst (polyfit1 (arange (length (dropna col))) (dropna col))"
    using h f(1) by blast
  show "trend (analyze_trend df column) = ''stable'' \<longleftrightarrow> \<bar>slope (analyze_trend df column)\<bar> < 0.01"
    using h f by auto
  show "trend (analyze_trend df column) = ''increasing'' \<longleftrightarrow> slope (analyze_trend df column) \<ge> 0.01"
    using h f by auto
  show "trend (analyze_trend df column) = ''decreasing'' \<longleftrightarrow> slope (analyze_trend df column) \<le> - 0.01"
    using h f by auto
next
  assume "2 \<le> length values"
  then have len: "\<not> length values < 2" by simp
  show "calculate_trend values = ''increasing'' \<longleftrightarrow> fst (polyfit1 (arange (length values)) values) > 0.1"
    using len by (simp add: calculate_trend_def Let_def)
  show "calculate_trend values = ''decreasing'' \<longleftrightarrow> fst (polyfit1 (arange (length values)) values) < - 0.1"
    using len by (simp add: calculate_trend_def Let_def)
  show "calculate_trend values = ''stable'' \<longleftrightarrow> \<bar>fst (polyfit1 (arange (length values)) values)\<bar> \<le> 0.1"
    using len by (auto simp add: calculate_trend_def Let_def)
next
  assume h: "2 \<le> length values \<and> sorted_wrt (<) values"
  then have pos: "0 < fst (polyfit1 (arange (length values)) values)"
    using slope_positive [of "values"] by blast
  show "0 < fst (polyfit1 (arange (length values)) values)" by (rule pos)
  show "calculate_trend values \<noteq> ''decreasing''"
    using pos h by (simp add: calculate_trend_def Let_def)
  have dn: "dropna (map Some values) = values" by (rule dropna_map_Some)
  show "trend (analyze_trend df column) \<noteq> ''decreasing''" if "df column = Some (map Some values)"
    using analyze_trend_fitted(2) [of df column "map Some values"] that h pos
    by (simp add: dn)
qed

theorem trend_classification_witness:
  "(2::nat) \<le> length [0, 1, 2 :: real] \<and> sorted_wrt (<) [0, 1, 2 :: real] \<and>
   slope (analyze_trend [''temperature'' \<mapsto> [Some 0, Some 1, None, Some 2]] ''temperature'') = 1 \<and>
   trend (analyze_trend [''temperature'' \<mapsto> [Some 0, Some 1, None, Some 2]] ''temperature'') =
     ''increasing'' \<and>
   calculate_trend [0, 1, 2] = ''increasing'' \<and>
   0 < fst (polyfit1 (arange (length [0, 1, 2 :: real])) [0, 1, 2])"
proof -
  have sl: "fst (polyfit1 (arange (length [0, 1, 2 :: real])) [0, 1, 2]) = 1"
    by (simp add: polyfit1_def arange_def Let_def)
  have dn: "dropna [Some 0, Some 1, None, Some 2] = [0, 1, 2]" by simp
  note a = trend_classification [of "[''temperature'' \<mapsto> [Some 0, Some 1, None, Some 2]]"
      "''temperature''" "[Some 0, Some 1, None, Some 2]" "[0, 1, 2]"]
  have h1: "[''temperature'' \<mapsto> [Some 0, Some 1, None, Some (2::real)]] ''temperature'' =
      Some [Some 0, Some 1, None, Some 2] \<and> 2 \<le> length (dropna [Some 0, Some 1, None, Some (2::real)])"
    by simp
  have h2: "(2::nat) \<le> length [0, 1, 2 :: real]" "sorted_wrt (<) [0, 1, 2 :: real]" by simp_all
  have s: "slope (analyze_trend [''temperature'' \<mapsto> [Some 0, Some 1, None, Some 2]] ''temperature'') = 1"
    using a h1 sl by (simp add: dn)
  have t: "trend (analyze_trend [''temperature'' \<mapsto> [Some 0, Some 1, None, Some 2]] ''temperature'') =
     ''increasing''"
    using a h1 s by simp
  have c: "calculate_trend [0, 1, 2] = ''increasing''"
    using a h2 sl by simp
  have p: "0 < fst (polyfit1 (arange (length [0, 1, 2 :: real])) [0, 1, 2])"
    using a h2 by blast
  show ?thesis using h2 s t c p by blast
qed

section \<open>Results: short series\<close>

lemma dropna_empty_all_none: "dropna col = [] \<Longrightarrow> list_all (\<lambda>v. v = None) col"
  by (induction col rule: dropna.induct) simp_all

lemma sensor_metrics_fold:
  "fold (\<lambda>col metrics.
           case df col of
             None \<Rightarrow> metrics
           | Some column \<Rightarrow>
               (let values = dropna column
                in if values = [] then metrics
                   else metrics(col \<mapsto> channel_metrics values)))
     cols m k =
   (if k \<in> set cols
    then (case df k of
            None \<Rightarrow> m k
          | Some column \<Rightarrow> if dropna column = [] then m k else Some (channel_metrics (dropna column)))
    else m k)"
proof (induction cols arbitrary: m)
  case Nil
  then show ?case by simp
next
  case (Cons c cs)
  show ?case
    by (simp add: Cons.IH Let_def split: option.splits)
qed

lemma calculate_sensor_metrics_channel:
  "calculate_sensor_metrics df k =
     (if k \<in> set sensor_columns
      then (case df k of
              None \<Rightarrow> None
            | Some column \<Rightarrow>
                if dropna column = [] then None else Some (channel_metrics (dropna column)))
      else None)"
  by (simp add: calculate_sensor_metrics_def sensor_metrics_fold)

text \<open>
  C8 (as stated it fails): a channel with a single valid point is reported by the sensor
  metrics with the trend stable, a trend classification, and not as insufficient data.
\<close>

theorem short_series_counterexample:
  "length (dropna [None, Some 5]) < 2 \<and>
   calculate_sensor_metrics [''temperature'' \<mapsto> [None, Some 5]] ''temperature'' =
     Some \<lparr>m_current = Some 5, m_average = 5, m_min = 5, m_max = 5, m_std = None,
           m_trend = ''stable''\<rparr> \<and>
   calculate_trend [5] = ''stable'' \<and> calculate_trend [] = ''stable''"
  by (simp add: calculate_sensor_metrics_channel sensor_columns_def channel_metrics_def mean_def
      sample_std_def sample_variance_def calculate_trend_def)

text \<open>
  C8 (amended): for a channel with fewer than 2 valid points, the trend analysis of the
  pattern analyser returns the explicit result \<open>no_data\<close> (column missing, empty or all
  null) or \<open>insufficient_data\<close> (one valid point), with slope 0 and R squared 0 and no
  current or average value; the trend classifier of the health summary returns stable;
  the sensor metrics leave a channel without valid point out of the result, and report a
  sensor channel with one valid point with this value as current, average, minimum and
  maximum, no standard deviation (NaN) and the trend stable. No exception is raised.
\<close>

theorem short_series_results:
  "(length values < 2 \<longrightarrow> calculate_trend values = ''stable'') \<and>
   (df column = None \<or> (\<exists>col. df column = Some col \<and> dropna col = []) \<longrightarrow>
      analyze_trend df column =
        \<lparr>trend = ''no_data'', slope = 0, r_squared = 0, current_value = None, average_value = None\<rparr> \<and>
      calculate_sensor_metrics df column = None) \<and>
   ((\<exists>col. df column = Some col \<and> dropna col = [v]) \<longrightarrow>
      analyze_trend df column =
        \<lparr>trend = ''insufficient_data'', slope = 0, r_squared = 0, current_value = None,
         average_value = None\<rparr> \<and>
      (column \<in> set sensor_columns \<longrightarrow>
         calculate_sensor_metrics df column =
           Some \<lparr>m_current = Some v, m_average = v, m_min = v, m_max = v, m_std = None,
                 m_trend = ''stable''\<rparr>))"
proof (intro conjI impI)
  assume "length values < 2"
  then show "calculate_trend values = ''stable''" by (simp add: calculate_trend_def)
next
  assume h: "df column = None \<or> (\<exists>col. df column = Some col \<and> dropna col = [])"
  show "analyze_trend df column =
        \<lparr>trend = ''no_data'', slope = 0, r_squared = 0, current_value = None, average_value = None\<rparr>"
    using h dropna_empty_all_none by (auto simp add: analyze_trend_def)
  show "calculate_sensor_metrics df column = None"
    using h by (auto simp add: calculate_sensor_metrics_channel)
next
  assume h: "\<exists>col. df column = Some col \<and> dropna col = [v]"
  then obtain col where col: "df column = Some col" "dropna col = [v]" by blast
  have "\<not> list_all (\<lambda>v. v = None) col"
    using col(2) dropna_all_none [of col] by auto
  then show "analyze_trend df column =
        \<lparr>trend = ''insufficient_data'', slope = 0, r_squared = 0, current_value = None,
         average_value = None\<rparr>"
    using col by (simp add: analyze_trend_def Let_def)
  show "calculate_sensor_metrics df column =
           Some \<lparr>m_current = Some v, m_average = v, m_min = v, m_max = v, m_std = None,
                 m_trend = ''stable''\<rparr>" if "column \<in> set sensor_columns"
    using col that
    by (simp add: calculate_sensor_metrics_channel channel_metrics_def mean_def sample_std_def
        sample_variance_def calculate_trend_def)
qed

theorem short_series_results_witness:
  "length ([] :: real list) < 2 \<and> calculate_trend [] = ''stable'' \<and>
   trend (analyze_trend [''pressure'' \<mapsto> [None, None]] ''pressure'') = ''no_data'' \<and>
   trend (analyze_trend Map.empty ''pressure'') = ''no_data'' \<and>
   calculate_sensor_metrics [''pressure'' \<mapsto> [None, None]] ''pressure'' = None \<and>
   trend (analyze_trend [''pressure'' \<mapsto> [None, Some 3]] ''pressure'') = ''insufficient_data'' \<and>
   ''pressure'' \<in> set sensor_columns \<and>
   map_option m_trend (calculate_sensor_metrics [''pressure'' \<mapsto> [None, Some 3]] ''pressure'') =
     Some ''stable''"
proof -
  note a = short_series_results [of "[]" "[''pressure'' \<mapsto> [None, None]]" "''pressure''" 3]
  note b = short_series_results [of "[]" Map.empty "''pressure''" 3]
  note c = short_series_results [of "[]" "[''pressure'' \<mapsto> [None, Some 3]]" "''pressure''" 3]
  have h1: "\<exists>col. [''pressure'' \<mapsto> [None, None :: real option]] ''pressure'' = Some col \<and> dropna col = []"
    by simp
  have h2: "\<exists>col. [''pressure'' \<mapsto> [None, Some (3::real)]] ''pressure'' = Some col \<and> dropna col = [3]"
    by simp
  have h3: "''pressure'' \<in> set sensor_columns" by (simp add: sensor_columns_def)
  have a1: "trend (analyze_trend [''pressure'' \<mapsto> [None, None]] ''pressure'') = ''no_data''"
    "calculate_sensor_metrics [''pressure'' \<mapsto> [None, None]] ''pressure'' = None"
    using a h1 by simp_all
  have b1: "trend (analyze_trend Map.empty ''pressure'') = ''no_data''"
    using b by simp
  have c1: "trend (analyze_trend [''pressure'' \<mapsto> [None, Some 3]] ''pressure'') = ''insufficient_data''"
    "map_option m_trend (calculate_sensor_metrics [''pressure'' \<mapsto> [None, Some 3]] ''pressure'') =
     Some ''stable''"
    using c h2 h3 by simp_all
  have d: "calculate_trend [] = ''stable''" using a by simp
  show ?thesis using a1 b1 c1 d h3 by simp
qed

section \<open>Results: deadlines\<close>













end
